theory Spec2Isabelle
  imports Main "HOL-Library.Word"
begin

section \<open>D-Bus values, signals and errors\<close>

text \<open>
  A D-Bus object path is a string (\<^verbatim>\<open>type ObjectPath string\<close> in godbus). The body of a
  signal is a Go \<^verbatim>\<open>[]interface{}\<close>: every element carries its dynamic type, which the
  constructors of \<open>dval\<close> record. A type assertion \<^verbatim>\<open>x.(uint32)\<close> succeeds on
  \<open>VUint32\<close> only, and \<^verbatim>\<open>x == p\<close> for an \<^verbatim>\<open>ObjectPath\<close> \<open>p\<close> holds only when \<open>x\<close> is a
  \<open>VObjectPath\<close> with the same text (a \<open>VString\<close> with that text is a different value).
\<close>

type_synonym ObjectPath = string

datatype dval =
    VByte "8 word"
  | VBool bool
  | VInt32 "32 word"
  | VUint32 "32 word"
  | VInt64 "64 word"
  | VUint64 "64 word"
  | VString string
  | VObjectPath ObjectPath
  | VArray "dval list"
  | VVariant dval

record signal =
  Sender :: string
  Path :: ObjectPath
  Name :: string
  Body :: "dval list"

text \<open>
  A Go \<^verbatim>\<open>error\<close> is kept as the call that built it: \<open>LibErr\<close> is an error value handed
  back by the bus library, \<open>New\<close> is \<^verbatim>\<open>errors.New\<close> (or \<^verbatim>\<open>fmt.Errorf\<close> without verbs), and
  \<open>Errorf\<close> is \<^verbatim>\<open>fmt.Errorf\<close> with its format string and its arguments.
\<close>

datatype fmtarg = AStr string | AVal dval | AErr error
  and error = LibErr string | New string | Errorf string "fmtarg list"

section \<open>The bus as seen by the systemd package\<close>

text \<open>
  A method call names a destination, an object path, a method and its (string) arguments.
  The bus answers each call from the calls made before it and the call itself: either the
  library's error text (\<^verbatim>\<open>call.Err\<close>, \<open>Inl\<close>) or the value that \<^verbatim>\<open>call.Store\<close> leaves in the
  destination variable (\<open>Inr\<close>; the source ignores the error of \<^verbatim>\<open>Store\<close>, so a reply that
  cannot be stored leaves the zero value, the empty string). The connection's state is the
  list of calls issued so far.
\<close>

datatype call = MethodCall string ObjectPath string "string list"

type_synonym bus = "call list \<Rightarrow> call \<Rightarrow> string + string"

type_synonym busobject = "string \<times> ObjectPath"

record env =
  SystemBus_err :: "string option"
  Object_nil :: "string \<Rightarrow> ObjectPath \<Rightarrow> bool"
  bus :: bus
  signals :: "signal list"

text \<open>
  \<open>SystemBus_err\<close> is the error of \<^verbatim>\<open>dbus.SystemBus()\<close> (\<open>None\<close>: connected);
  \<open>Object_nil d p\<close> says whether \<^verbatim>\<open>conn.Object(d, p)\<close> is nil; \<open>signals\<close> are the signals
  that the \<^verbatim>\<open>select\<close> of \<open>waitJobComplete\<close> receives, in order, before it takes the case of
  the 5-second timer (the timer fires, so the list is finite and the timer case follows it).
\<close>

definition systemdService :: string where
  "systemdService = ''org.freedesktop.systemd1''"

definition systemObjectPath :: ObjectPath where
  "systemObjectPath = ''/org/freedesktop/systemd1''"

definition systemdGetUnitMethod :: string where
  "systemdGetUnitMethod = ''org.freedesktop.systemd1.Manager.GetUnit''"

definition dbusGetPropertyMethod :: string where
  "dbusGetPropertyMethod = ''org.freedesktop.DBus.Properties.Get''"

definition systemdUnit :: string where
  "systemdUnit = ''org.freedesktop.systemd1.Unit''"

definition systemdUnitStateProperty :: string where
  "systemdUnitStateProperty = ''ActiveState''"

definition systemdStopUnitMethod :: string where
  "systemdStopUnitMethod = ''org.freedesktop.systemd1.Manager.StopUnit''"

definition systemdStartUnitMethod :: string where
  "systemdStartUnitMethod = ''org.freedesktop.systemd1.Manager.StartUnit''"

definition systemdJobRemovedMatchRule :: string where
  "systemdJobRemovedMatchRule =
     ''type='signal',interface='org.freedesktop.systemd1.Manager',member='JobRemoved''
       @ [CHR 0x27]"

definition busObject :: busobject where
  "busObject = (''org.freedesktop.DBus'', ''/org/freedesktop/DBus'')"

definition Call :: "env \<Rightarrow> call list \<Rightarrow> busobject \<Rightarrow> string \<Rightarrow> string list
    \<Rightarrow> (string + string) \<times> call list" where
  "Call e log obj m as =
     (let c = MethodCall (fst obj) (snd obj) m as in (bus e log c, log @ [c]))"

section \<open>Unit status\<close>

definition getSystemdObject :: "env \<Rightarrow> error + busobject" where
  "getSystemdObject e =
     (if Object_nil e systemdService systemObjectPath
      then Inl (New ''failed to get systemd object'')
      else Inr (systemdService, systemObjectPath))"

definition getSystemdUnitObject :: "env \<Rightarrow> call list \<Rightarrow> string
    \<Rightarrow> (error + busobject) \<times> call list" where
  "getSystemdUnitObject e log serviceName =
     (case getSystemdObject e of
        Inl err \<Rightarrow> (Inl (Errorf ''failed to get systemd obj: %v'' [AErr err]), log)
      | Inr systemdObj \<Rightarrow>
          (case Call e log systemdObj systemdGetUnitMethod [serviceName] of
             (Inl callErr, log') \<Rightarrow>
               (Inl (Errorf ''failed to get unit path %s: %v''
                       [AStr serviceName, AErr (LibErr callErr)]), log')
           | (Inr unitObjectPath, log') \<Rightarrow>
               if Object_nil e systemdService unitObjectPath
               then (Inl (New ''failed to get unit object''), log')
               else (Inr (systemdService, unitObjectPath), log')))"

definition getUnitStatus :: "env \<Rightarrow> call list \<Rightarrow> busobject
    \<Rightarrow> (error + string) \<times> call list" where
  "getUnitStatus e log unitObj =
     (case Call e log unitObj dbusGetPropertyMethod [systemdUnit, systemdUnitStateProperty] of
        (Inl callErr, log') \<Rightarrow>
          (Inl (Errorf ''failed to check unit state: %v'' [AErr (LibErr callErr)]), log')
      | (Inr state, log') \<Rightarrow> (Inr state, log'))"

definition checkServiceStatus :: "env \<Rightarrow> call list \<Rightarrow> string
    \<Rightarrow> (error + busobject \<times> bool) \<times> call list" where
  "checkServiceStatus e log serviceName =
     (case getSystemdUnitObject e log serviceName of
        (Inl err, log') \<Rightarrow> (Inl err, log')
      | (Inr unitObj, log') \<Rightarrow>
          (case getUnitStatus e log' unitObj of
             (Inl err, log'') \<Rightarrow> (Inl err, log'')
           | (Inr unitState, log'') \<Rightarrow>
               (Inr (unitObj, \<not> (unitState = ''inactive'' \<or> unitState = ''failed'')), log'')))"

section \<open>Start and stop requests, and the wait for the job\<close>

definition doStopService :: "env \<Rightarrow> call list \<Rightarrow> busobject \<Rightarrow> string
    \<Rightarrow> (error + ObjectPath) \<times> call list" where
  "doStopService e log systemdObj serviceName =
     (case Call e log systemdObj systemdStopUnitMethod [serviceName, ''replace''] of
        (Inl callErr, log') \<Rightarrow>
          (Inl (Errorf ''failed to stop unit: %v'' [AErr (LibErr callErr)]), log')
      | (Inr jobObjectPath, log') \<Rightarrow> (Inr jobObjectPath, log'))"

definition doStartService :: "env \<Rightarrow> call list \<Rightarrow> busobject \<Rightarrow> string
    \<Rightarrow> (error + ObjectPath) \<times> call list" where
  "doStartService e log systemdObj serviceName =
     (case Call e log systemdObj systemdStartUnitMethod [serviceName, ''replace''] of
        (Inl callErr, log') \<Rightarrow>
          (Inl (Errorf ''failed to start unit: %v'' [AErr (LibErr callErr)]), log')
      | (Inr jobObjectPath, log') \<Rightarrow> (Inr jobObjectPath, log'))"

text \<open>
  The loop of \<open>waitJobComplete\<close>, over the signals its \<^verbatim>\<open>select\<close> receives until the timer
  case is taken (the empty list: nothing is left before the timer).
\<close>

fun waitLoop :: "ObjectPath \<Rightarrow> signal list \<Rightarrow> error + string" where
  "waitLoop targetJobPath [] = Inl (New ''operation timed out'')"
| "waitLoop targetJobPath (sg # sigs) =
     (if Name sg = ''org.freedesktop.systemd1.Manager.JobRemoved'' then
        if length (Body sg) < 4 then waitLoop targetJobPath sigs
        else
          let jobPath = Body sg ! 1; jobResult = Body sg ! 3 in
          if jobPath = VObjectPath targetJobPath then
            (case jobResult of
               VString r \<Rightarrow> Inr r
             | _ \<Rightarrow> Inl (Errorf ''unexpected jobResult type, got value: %v'' [AVal jobResult]))
          else waitLoop targetJobPath sigs
      else waitLoop targetJobPath sigs)"

definition waitJobComplete :: "env \<Rightarrow> call list \<Rightarrow> ObjectPath
    \<Rightarrow> (error + string) \<times> call list" where
  "waitJobComplete e log targetJobPath =
     (case Call e log busObject ''org.freedesktop.DBus.AddMatch'' [systemdJobRemovedMatchRule] of
        (_, log') \<Rightarrow> (waitLoop targetJobPath (signals e), log'))"

section \<open>StartService and StopService\<close>

text \<open>
  Both return the error (\<open>None\<close> is Go's nil) and the calls the run has issued on its
  connection. The \<^verbatim>\<open>log.Printf\<close> lines write to the process log only, and the deferred
  \<^verbatim>\<open>conn.Close()\<close> ends every run that has connected; neither changes the result.
\<close>

definition StartService :: "env \<Rightarrow> string \<Rightarrow> error option \<times> call list" where
  "StartService e serviceName =
     (case SystemBus_err e of
        Some err \<Rightarrow>
          (Some (Errorf ''failed to connected to the system bus: %v'' [AErr (LibErr err)]), [])
      | None \<Rightarrow>
     (case getSystemdObject e of
        Inl err \<Rightarrow> (Some (Errorf ''failed to get systemd obj: %v'' [AErr err]), [])
      | Inr systemdObj \<Rightarrow>
     (case checkServiceStatus e [] serviceName of
        (Inl err, log1) \<Rightarrow> (Some err, log1)
      | (Inr (_, res), log1) \<Rightarrow>
          if res then (None, log1) else
     (case doStartService e log1 systemdObj serviceName of
        (Inl err, log2) \<Rightarrow>
          (Some (Errorf ''error requesting start job for service: %v'' [AErr err]), log2)
      | (Inr startJobPath, log2) \<Rightarrow>
     (case waitJobComplete e log2 startJobPath of
        (Inl err, log3) \<Rightarrow>
          (Some (Errorf ''waiting for start job failed with error: %v'' [AErr err]), log3)
      | (Inr jobResult, log3) \<Rightarrow>
          if jobResult = ''done'' then (None, log3) else
     (case checkServiceStatus e log3 serviceName of
        (Inl err, log4) \<Rightarrow>
          (Some (Errorf
             ''job to start unit failed and checking state of service gave error: %v''
             [AErr err]), log4)
      | (Inr (_, res2), log4) \<Rightarrow>
          if \<not> res2
          then (Some (Errorf ''job to start service failed (%s) and unit isn't running''
                        [AStr jobResult]), log4)
          else (None, log4)))))))"

definition StopService :: "env \<Rightarrow> string \<Rightarrow> error option \<times> call list" where
  "StopService e serviceName =
     (case SystemBus_err e of
        Some err \<Rightarrow>
          (Some (Errorf ''failed to connected to the system bus: %v'' [AErr (LibErr err)]), [])
      | None \<Rightarrow>
     (case getSystemdObject e of
        Inl err \<Rightarrow> (Some (Errorf ''failed to get systemd obj: %v'' [AErr err]), [])
      | Inr systemdObj \<Rightarrow>
     (case checkServiceStatus e [] serviceName of
        (Inl err, log1) \<Rightarrow> (Some err, log1)
      | (Inr (_, res), log1) \<Rightarrow>
          if \<not> res then (None, log1) else
     (case doStopService e log1 systemdObj serviceName of
        (Inl err, log2) \<Rightarrow>
          (Some (Errorf ''error requesting stop job for service: %v'' [AErr err]), log2)
      | (Inr stopJobPath, log2) \<Rightarrow>
     (case waitJobComplete e log2 stopJobPath of
        (Inl err, log3) \<Rightarrow>
          (Some (Errorf ''waiting for stop job failed with error: %v'' [AErr err]), log3)
      | (Inr jobResult, log3) \<Rightarrow>
          if jobResult = ''done'' then (None, log3) else
     (case checkServiceStatus e log3 serviceName of
        (Inl err, log4) \<Rightarrow>
          (Some (Errorf
             ''job to stop unit failed and checking state of service gave error: %v''
             [AErr err]), log4)
      | (Inr (_, res2), log4) \<Rightarrow>
          if res2
          then (Some (Errorf ''job to stop service failed (%s) and unit is still running''
                        [AStr jobResult]), log4)
          else (None, log4)))))))"

section \<open>NetworkManager: constants\<close>

definition MethodDbusAddMatchRule :: string where
  "MethodDbusAddMatchRule = ''org.freedesktop.DBus.AddMatch''"

definition NetworkManagerInterface :: string where
  "NetworkManagerInterface = ''org.freedesktop.NetworkManager''"

definition NetworkManagerDeviceInterface :: string where
  "NetworkManagerDeviceInterface = ''org.freedesktop.NetworkManager.Device''"

definition NetworkManagerObjectPath :: ObjectPath where
  "NetworkManagerObjectPath = ''/org/freedesktop/NetworkManager''"

definition NetworkManagerSignalState :: string where
  "NetworkManagerSignalState = ''StateChanged''"

definition DeviceStateChangedSignal :: string where
  "DeviceStateChangedSignal = NetworkManagerDeviceInterface @ ''.StateChanged''"

definition NM_STATE_UNKNOWN :: "32 word" where
  "NM_STATE_UNKNOWN = 0"

definition NM_STATE_ASLEEP :: "32 word" where
  "NM_STATE_ASLEEP = 10"

definition NM_STATE_DISCONNECTED :: "32 word" where
  "NM_STATE_DISCONNECTED = 20"

definition NM_STATE_DISCONNECTING :: "32 word" where
  "NM_STATE_DISCONNECTING = 30"

definition NM_STATE_CONNECTING :: "32 word" where
  "NM_STATE_CONNECTING = 40"

definition NM_STATE_CONNECTED_LOCAL :: "32 word" where
  "NM_STATE_CONNECTED_LOCAL = 50"

definition NM_STATE_CONNECTED_SITE :: "32 word" where
  "NM_STATE_CONNECTED_SITE = 60"

definition NM_STATE_CONNECTED_GLOBAL :: "32 word" where
  "NM_STATE_CONNECTED_GLOBAL = 70"

definition NM_STATE_MAP :: "32 word \<rightharpoonup> string" where
  "NM_STATE_MAP = map_of
     [(NM_STATE_UNKNOWN, ''Unknown''),
      (NM_STATE_ASLEEP, ''Asleep''),
      (NM_STATE_DISCONNECTED, ''Disconnected''),
      (NM_STATE_DISCONNECTING, ''Disconnecting''),
      (NM_STATE_CONNECTING, ''Connecting''),
      (NM_STATE_CONNECTED_LOCAL, ''Connected - Local''),
      (NM_STATE_CONNECTED_SITE, ''Connected - Site''),
      (NM_STATE_CONNECTED_GLOBAL, ''Connected - Global'')]"

section \<open>The raw signal subscription of package unix\<close>

text \<open>
  A buffered Go channel is its capacity and its buffer, oldest element first.
  \<open>DBusSignalSubscription\<close> has the two fields of the source: the channel \<^verbatim>\<open>C\<close> of raw
  signals and the connection \<^verbatim>\<open>Conn\<close> (its call log); \<open>None\<close> is Go's nil.
\<close>

record 'a chan =
  cap :: nat
  buf :: "'a list"

record DBusSignalSubscription =
  sub_C :: "signal chan option"
  sub_Conn :: "call list option"

definition MakeDBusSignalSubscription :: "env \<Rightarrow> DBusSignalSubscription \<Rightarrow> string \<Rightarrow> nat
    \<Rightarrow> DBusSignalSubscription \<times> error option" where
  "MakeDBusSignalSubscription e ss matchRule sz =
     (case SystemBus_err e of
        Some err \<Rightarrow>
          (ss, Some (Errorf ''failed to connect to SystemBus: %v'' [AErr (LibErr err)]))
      | None \<Rightarrow>
          (case Call e [] busObject MethodDbusAddMatchRule [matchRule] of
             (Inl callErr, conn) \<Rightarrow> (ss, Some (LibErr callErr))
           | (Inr _, conn) \<Rightarrow>
               (ss\<lparr>sub_Conn := Some conn, sub_C := Some \<lparr>cap = sz, buf = []\<rparr>\<rparr>, None)))"

definition NetworkManagerStateMatchRule :: string where
  "NetworkManagerStateMatchRule =
     ''type='signal',interface='' @ [CHR 0x27] @ NetworkManagerInterface @ [CHR 0x27]
       @ '',member='' @ [CHR 0x27] @ NetworkManagerSignalState @ [CHR 0x27]
       @ '',path='' @ [CHR 0x27] @ NetworkManagerObjectPath @ [CHR 0x27]"

definition GetNetworkManagerStateSubscription :: "env \<Rightarrow> DBusSignalSubscription \<times> error option"
  where
  "GetNetworkManagerStateSubscription e =
     MakeDBusSignalSubscription e \<lparr>sub_C = None, sub_Conn = None\<rparr>
       NetworkManagerStateMatchRule 20"

text \<open>
  \<^verbatim>\<open>conn.Signal(ch)\<close> registers \<open>ch\<close> with the library, which then passes every signal
  message the connection receives to \<open>ch\<close>, blocking while the buffer is full.
  \<open>Signal_deliver\<close> is one such hand-over (\<open>None\<close>: it blocks, or there is no channel).
\<close>

definition Signal_deliver :: "signal \<Rightarrow> DBusSignalSubscription \<Rightarrow> DBusSignalSubscription option"
  where
  "Signal_deliver sg ss =
     (case sub_C ss of
        None \<Rightarrow> None
      | Some ch \<Rightarrow>
          if length (buf ch) < cap ch
          then Some (ss\<lparr>sub_C := Some (ch\<lparr>buf := buf ch @ [sg]\<rparr>)\<rparr>)
          else None)"

section \<open>The device state-change subscription and its pump\<close>

text \<open>
  The record sent on the output channel is Go's \<^verbatim>\<open>[3]uint32\<close>: (new state, old state,
  reason). The goroutine \<open>goParseDeviceStateChangeSignals\<close> stands either at its \<^verbatim>\<open>select\<close>,
  or at the send \<^verbatim>\<open>outCh <- values\<close> (which is outside the \<^verbatim>\<open>select\<close> and blocks while the
  channel holds 20 records), or it has returned.
\<close>

type_synonym values3 = "32 word \<times> 32 word \<times> 32 word"

datatype pumpLoc = AtSelect | AtSend values3 | Returned

record pump =
  ctxDone :: bool
  sigCh :: "signal list"
  outCh :: "values3 list"
  loc :: pumpLoc
  connClosed :: bool
  wgDone :: bool
  received :: "signal list"
  consumed :: "values3 list"

text \<open>
  \<open>ctxDone\<close>: the context is cancelled (\<^verbatim>\<open>Stop\<close> was called); \<open>sigCh\<close>, \<open>outCh\<close>: the two
  channels of capacity 20; \<open>connClosed\<close>, \<open>wgDone\<close>: the deferred \<^verbatim>\<open>conn.Close()\<close> and
  \<^verbatim>\<open>wg.Done()\<close> have run (\<^verbatim>\<open>Join\<close>, which is \<^verbatim>\<open>wg.Wait\<close>, returns once \<open>wgDone\<close> holds).
  \<open>received\<close> and \<open>consumed\<close> are histories, read by no code: the signals the pump has
  taken from \<open>sigCh\<close> and the records the subscriber has taken from \<open>outCh\<close>.
  The signals in \<open>sigCh\<close> are the non-nil pointers the library sends; the source never
  closes \<open>sigCh\<close> before the pump returns.
\<close>

definition WithMatchObjectPath_rule :: "ObjectPath \<Rightarrow> string" where
  "WithMatchObjectPath_rule devPath =
     ''type='signal',path='' @ [CHR 0x27] @ devPath @ [CHR 0x27]"

definition deviceStateChangeSubscribe :: "env \<Rightarrow> ObjectPath
    \<Rightarrow> error + call list \<times> signal list" where
  "deviceStateChangeSubscribe e devPath =
     (case SystemBus_err e of
        Some err \<Rightarrow> Inl (Errorf ''failed to connect to System Bus: %w'' [AErr (LibErr err)])
      | None \<Rightarrow>
          (case Call e [] busObject ''org.freedesktop.DBus.AddMatch''
                  [WithMatchObjectPath_rule devPath] of
             (_, conn) \<Rightarrow> Inr (conn, [])))"

text \<open>
  The body of the \<^verbatim>\<open>case sig := <-sigCh\<close> branch: \<open>Some v\<close> when the branch reaches
  \<^verbatim>\<open>outCh <- values\<close>, \<open>None\<close> when it falls through or takes a \<^verbatim>\<open>continue\<close>.
\<close>

definition parseDeviceStateChange :: "ObjectPath \<Rightarrow> signal \<Rightarrow> values3 option" where
  "parseDeviceStateChange devPath sg =
     (if Path sg = devPath \<and> Name sg = DeviceStateChangedSignal \<and> 3 \<le> length (Body sg) then
        (case Body sg ! 0 of
           VUint32 v0 \<Rightarrow>
             (case Body sg ! 1 of
                VUint32 v1 \<Rightarrow>
                  (case Body sg ! 2 of
                     VUint32 v2 \<Rightarrow> Some (v0, v1, v2)
                   | _ \<Rightarrow> None)
              | _ \<Rightarrow> None)
         | _ \<Rightarrow> None)
      else None)"

text \<open>
  One step of the system. \<open>Stop\<close>, \<open>Deliver\<close> and \<open>Consume\<close> are the environment: the
  owner cancels, the library puts a signal into \<open>sigCh\<close>, the subscriber takes a record from
  \<open>outCh\<close>. \<open>SelectDone\<close>, \<open>SelectSig\<close> and \<open>Send\<close> are the goroutine: its \<^verbatim>\<open>select\<close> takes
  \<^verbatim>\<open>ctx.Done()\<close>, or takes a signal, or the send goes through. Go's \<^verbatim>\<open>select\<close> picks any
  one of the cases that are ready, so both \<open>SelectDone\<close> and \<open>SelectSig\<close> can be enabled;
  \<open>None\<close> means the step is not enabled.
\<close>

datatype action = Stop | Deliver signal | Consume | SelectDone | SelectSig | Send

fun fire :: "ObjectPath \<Rightarrow> action \<Rightarrow> pump \<Rightarrow> pump option" where
  "fire devPath Stop s = Some (s\<lparr>ctxDone := True\<rparr>)"
| "fire devPath (Deliver sg) s =
     (if \<not> connClosed s \<and> length (sigCh s) < 20
      then Some (s\<lparr>sigCh := sigCh s @ [sg]\<rparr>) else None)"
| "fire devPath Consume s =
     (case outCh s of
        [] \<Rightarrow> None
      | vals # rest \<Rightarrow> Some (s\<lparr>outCh := rest, consumed := consumed s @ [vals]\<rparr>))"
| "fire devPath SelectDone s =
     (if loc s = AtSelect \<and> ctxDone s
      then Some (s\<lparr>loc := Returned, connClosed := True, wgDone := True\<rparr>) else None)"
| "fire devPath SelectSig s =
     (if loc s = AtSelect then
        (case sigCh s of
           [] \<Rightarrow> None
         | sg # rest \<Rightarrow>
             Some (s\<lparr>sigCh := rest, received := received s @ [sg],
                     loc := (case parseDeviceStateChange devPath sg of
                               None \<Rightarrow> AtSelect
                             | Some vals \<Rightarrow> AtSend vals)\<rparr>))
      else None)"
| "fire devPath Send s =
     (case loc s of
        AtSend vals \<Rightarrow>
          if length (outCh s) < 20
          then Some (s\<lparr>outCh := outCh s @ [vals], loc := AtSelect\<rparr>) else None
      | _ \<Rightarrow> None)"

fun exec :: "ObjectPath \<Rightarrow> action list \<Rightarrow> pump \<Rightarrow> pump option" where
  "exec devPath [] s = Some s"
| "exec devPath (a # as) s =
     (case fire devPath a s of None \<Rightarrow> None | Some s' \<Rightarrow> exec devPath as s')"

definition DeviceStateChangeSubscribe :: "env \<Rightarrow> ObjectPath \<Rightarrow> error + pump" where
  "DeviceStateChangeSubscribe e devPath =
     (case deviceStateChangeSubscribe e devPath of
        Inl err \<Rightarrow> Inl err
      | Inr (conn, c) \<Rightarrow>
          Inr \<lparr>ctxDone = False, sigCh = c, outCh = [], loc = AtSelect,
               connClosed = False, wgDone = False, received = [], consumed = []\<rparr>)"

definition Join_returns :: "pump \<Rightarrow> bool" where
  "Join_returns s = wgDone s"


text \<open>
  The words of the specification: a signal is rejected when its path or its name does not
  match, or its body has fewer than three elements, or one of the first three is not an
  unsigned 32-bit integer; it is well formed otherwise, and then its record is made of the
  first three body elements.
\<close>

fun isUint32 :: "dval \<Rightarrow> bool" where
  "isUint32 (VUint32 w) = True"
| "isUint32 _ = False"

fun uint32_of :: "dval \<Rightarrow> 32 word" where
  "uint32_of (VUint32 w) = w"
| "uint32_of _ = 0"

definition rejected :: "ObjectPath \<Rightarrow> signal \<Rightarrow> bool" where
  "rejected devPath sg =
     (Path sg \<noteq> devPath \<or> Name sg \<noteq> DeviceStateChangedSignal \<or> length (Body sg) < 3
        \<or> \<not> isUint32 (Body sg ! 0) \<or> \<not> isUint32 (Body sg ! 1) \<or> \<not> isUint32 (Body sg ! 2))"

definition wellFormed :: "ObjectPath \<Rightarrow> signal \<Rightarrow> bool" where
  "wellFormed devPath sg =
     (Path sg = devPath \<and> Name sg = DeviceStateChangedSignal \<and> 3 \<le> length (Body sg)
        \<and> isUint32 (Body sg ! 0) \<and> isUint32 (Body sg ! 1) \<and> isUint32 (Body sg ! 2))"

definition record_of :: "signal \<Rightarrow> values3" where
  "record_of sg = (uint32_of (Body sg ! 0), uint32_of (Body sg ! 1), uint32_of (Body sg ! 2))"



definition visible :: "pump \<Rightarrow> bool \<times> signal list \<times> values3 list \<times> pumpLoc \<times> bool \<times> bool" where
  "visible s = (ctxDone s, sigCh s, outCh s, loc s, connClosed s, wgDone s)"

section \<open>Vocabulary for the calls a run issues\<close>

text \<open>
  The five method calls of the systemd package, as they appear in the connection's log, and
  the test for a mutating request (\<^verbatim>\<open>StartUnit\<close> or \<^verbatim>\<open>StopUnit\<close>).
\<close>

definition GetUnitCall :: "string \<Rightarrow> call" where
  "GetUnitCall serviceName =
     MethodCall systemdService systemObjectPath systemdGetUnitMethod [serviceName]"

definition GetStateCall :: "ObjectPath \<Rightarrow> call" where
  "GetStateCall unitObjectPath =
     MethodCall systemdService unitObjectPath dbusGetPropertyMethod
       [systemdUnit, systemdUnitStateProperty]"

definition StartUnitCall :: "string \<Rightarrow> call" where
  "StartUnitCall serviceName =
     MethodCall systemdService systemObjectPath systemdStartUnitMethod
       [serviceName, ''replace'']"

definition StopUnitCall :: "string \<Rightarrow> call" where
  "StopUnitCall serviceName =
     MethodCall systemdService systemObjectPath systemdStopUnitMethod
       [serviceName, ''replace'']"

definition AddMatchCall :: call where
  "AddMatchCall =
     MethodCall ''org.freedesktop.DBus'' ''/org/freedesktop/DBus''
       ''org.freedesktop.DBus.AddMatch'' [systemdJobRemovedMatchRule]"

fun isMutating :: "call \<Rightarrow> bool" where
  "isMutating (MethodCall d p m as) =
     (m = systemdStartUnitMethod \<or> m = systemdStopUnitMethod)"

text \<open>
  A signal that \<open>waitJobComplete\<close> accepts for the token \<open>tok\<close>: a \<^verbatim>\<open>JobRemoved\<close> signal
  with at least four body elements whose second element is the object path \<open>tok\<close>.
\<close>

definition jobRemovedFor :: "ObjectPath \<Rightarrow> signal \<Rightarrow> bool" where
  "jobRemovedFor tok sg =
     (Name sg = ''org.freedesktop.systemd1.Manager.JobRemoved'' \<and> 4 \<le> length (Body sg)
        \<and> Body sg ! 1 = VObjectPath tok)"

text \<open>
  \<open>statusAnswers e log n p st\<close>: at the call log \<open>log\<close>, the bus answers the status query
  for the unit \<open>n\<close>: \<^verbatim>\<open>GetUnit\<close> yields the unit path \<open>p\<close>, the property read yields the
  \<^verbatim>\<open>ActiveState\<close> \<open>st\<close>, and neither bus object is nil.
\<close>

definition statusAnswers :: "env \<Rightarrow> call list \<Rightarrow> string \<Rightarrow> ObjectPath \<Rightarrow> string \<Rightarrow> bool" where
  "statusAnswers e log n p st =
     (\<not> Object_nil e systemdService systemObjectPath \<and> bus e log (GetUnitCall n) = Inr p
        \<and> \<not> Object_nil e systemdService p
        \<and> bus e (log @ [GetUnitCall n]) (GetStateCall p) = Inr st)"

section \<open>A fake transport\<close>

text \<open>
  A bus for concrete runs: every unit lives at \<^verbatim>\<open>/unit/demo\<close>, a start or stop request
  yields the job \<^verbatim>\<open>/job/7\<close>, and the \<^verbatim>\<open>ActiveState\<close> read yields \<open>before\<close> until a start
  or stop request has been issued and \<open>after\<close> from then on.
\<close>

definition fakeBus :: "string \<Rightarrow> string \<Rightarrow> bus" where
  "fakeBus before after log c =
     (case c of
        MethodCall d p m as \<Rightarrow>
          if m = systemdGetUnitMethod then Inr ''/unit/demo''
          else if m = dbusGetPropertyMethod
            then Inr (if list_ex isMutating log then after else before)
          else if m = systemdStartUnitMethod \<or> m = systemdStopUnitMethod then Inr ''/job/7''
          else Inr [])"

definition fakeEnv :: "string \<Rightarrow> string \<Rightarrow> signal list \<Rightarrow> env" where
  "fakeEnv before after sgs =
     \<lparr>SystemBus_err = None, Object_nil = (\<lambda>d p. False), bus = fakeBus before after,
      signals = sgs\<rparr>"

definition JobRemoved :: "ObjectPath \<Rightarrow> string \<Rightarrow> signal" where
  "JobRemoved jobPath jobResult =
     \<lparr>Sender = '':1.1'', Path = ''/org/freedesktop/systemd1'',
      Name = ''org.freedesktop.systemd1.Manager.JobRemoved'',
      Body = [VUint32 1, VObjectPath jobPath, VString ''demo'', VString jobResult]\<rparr>"

section \<open>Concrete signals and a bus that rejects match rules\<close>

definition StateChanged :: "ObjectPath \<Rightarrow> 32 word \<Rightarrow> 32 word \<Rightarrow> 32 word \<Rightarrow> signal" where
  "StateChanged devPath newState oldState reason =
     \<lparr>Sender = '':1.2'', Path = devPath,
      Name = ''org.freedesktop.NetworkManager.Device.StateChanged'',
      Body = [VUint32 newState, VUint32 oldState, VUint32 reason]\<rparr>"

definition NameAcquired :: signal where
  "NameAcquired =
     \<lparr>Sender = ''org.freedesktop.DBus'', Path = ''/org/freedesktop/DBus'',
      Name = ''org.freedesktop.DBus.NameAcquired'', Body = [VString '':1.42'']\<rparr>"

definition ManagerStateChanged :: "32 word \<Rightarrow> signal" where
  "ManagerStateChanged state =
     \<lparr>Sender = '':1.3'', Path = ''/org/freedesktop/NetworkManager'',
      Name = ''org.freedesktop.NetworkManager.StateChanged'', Body = [VUint32 state]\<rparr>"

definition rejectingEnv :: env where
  "rejectingEnv =
     \<lparr>SystemBus_err = None, Object_nil = (\<lambda>d p. False),
      bus = (\<lambda>log c. Inl ''org.freedesktop.DBus.Error.LimitsExceeded''), signals = []\<rparr>"

section \<open>Properties of the systemd package\<close>

lemma waitLoop_skip:
  "\<not> jobRemovedFor tok sg \<Longrightarrow> waitLoop tok (sg # sigs) = waitLoop tok sigs"
  by (auto simp: jobRemovedFor_def Let_def)

lemma waitLoop_timeout:
  "\<not> list_ex (jobRemovedFor tok) sigs \<Longrightarrow> waitLoop tok sigs = Inl (New ''operation timed out'')"
  by (induction sigs) (auto simp: jobRemovedFor_def Let_def)

lemma waitLoop_Inr:
  "waitLoop tok sigs = Inr r \<Longrightarrow>
     \<exists>pre sg post. sigs = pre @ sg # post \<and> jobRemovedFor tok sg \<and> Body sg ! 3 = VString r
        \<and> \<not> list_ex (jobRemovedFor tok) pre"
proof (induction sigs)
  case Nil
  then show ?case by simp
next
  case (Cons a sigs)
  show ?case
  proof (cases "jobRemovedFor tok a")
    case True
    with Cons.prems have "Body a ! 3 = VString r"
      by (auto simp: jobRemovedFor_def Let_def split: dval.splits)
    with True have "a # sigs = [] @ a # sigs \<and> jobRemovedFor tok a \<and> Body a ! 3 = VString r
        \<and> \<not> list_ex (jobRemovedFor tok) []" by simp
    then show ?thesis by blast
  next
    case False
    from Cons.prems waitLoop_skip[OF False, of sigs] have "waitLoop tok sigs = Inr r"
      by (simp del: waitLoop.simps)
    from Cons.IH[OF this] obtain pre sg post where
      "sigs = pre @ sg # post" "jobRemovedFor tok sg" "Body sg ! 3 = VString r"
      "\<not> list_ex (jobRemovedFor tok) pre" by blast
    with False have "a # sigs = (a # pre) @ sg # post \<and> jobRemovedFor tok sg \<and> Body sg ! 3 = VString r
        \<and> \<not> list_ex (jobRemovedFor tok) (a # pre)" by simp
    then show ?thesis by blast
  qed
qed

lemma Call_eq:
  "Call e log obj m as =
     (bus e log (MethodCall (fst obj) (snd obj) m as), log @ [MethodCall (fst obj) (snd obj) m as])"
  by (simp add: Call_def Let_def)

lemma waitJobComplete_eq:
  "waitJobComplete e log tok = (waitLoop tok (signals e), log @ [AddMatchCall])"
  by (simp add: waitJobComplete_def Call_eq busObject_def AddMatchCall_def split: prod.splits)

lemma getSystemdUnitObject_ok:
  "\<not> Object_nil e systemdService systemObjectPath \<Longrightarrow> bus e log (GetUnitCall n) = Inr p \<Longrightarrow>
   \<not> Object_nil e systemdService p \<Longrightarrow>
   getSystemdUnitObject e log n = (Inr (systemdService, p), log @ [GetUnitCall n])"
  by (simp add: getSystemdUnitObject_def getSystemdObject_def Call_eq GetUnitCall_def)

lemma getUnitStatus_ok:
  "bus e log (GetStateCall p) = Inr st \<Longrightarrow>
   getUnitStatus e log (systemdService, p) = (Inr st, log @ [GetStateCall p])"
  by (simp add: getUnitStatus_def Call_eq GetStateCall_def)

lemma checkServiceStatus_ok:
  "\<not> Object_nil e systemdService systemObjectPath \<Longrightarrow> bus e log (GetUnitCall n) = Inr p \<Longrightarrow>
   \<not> Object_nil e systemdService p \<Longrightarrow> bus e (log @ [GetUnitCall n]) (GetStateCall p) = Inr st \<Longrightarrow>
   checkServiceStatus e log n =
     (Inr ((systemdService, p), st \<noteq> ''inactive'' \<and> st \<noteq> ''failed''),
      log @ [GetUnitCall n, GetStateCall p])"
  by (simp add: checkServiceStatus_def getSystemdUnitObject_ok getUnitStatus_ok)

lemma checkServiceStatus_Inr:
  assumes "checkServiceStatus e log n = (Inr (u, b), log')"
  shows "\<exists>p st. \<not> Object_nil e systemdService systemObjectPath \<and> bus e log (GetUnitCall n) = Inr p
           \<and> \<not> Object_nil e systemdService p
           \<and> bus e (log @ [GetUnitCall n]) (GetStateCall p) = Inr st
           \<and> u = (systemdService, p) \<and> b = (st \<noteq> ''inactive'' \<and> st \<noteq> ''failed'')
           \<and> log' = log @ [GetUnitCall n, GetStateCall p]"
  using assms
  by (auto simp: checkServiceStatus_def getSystemdUnitObject_def getSystemdObject_def
        getUnitStatus_def Call_eq GetUnitCall_def GetStateCall_def
      split: sum.splits if_splits prod.splits)

lemma isMutating_simps2:
  "\<not> isMutating (GetUnitCall n)" "\<not> isMutating (GetStateCall p)" "\<not> isMutating AddMatchCall"
  "isMutating (StartUnitCall n)" "isMutating (StopUnitCall n)"
  by (simp_all add: GetUnitCall_def GetStateCall_def AddMatchCall_def StartUnitCall_def
      StopUnitCall_def systemdGetUnitMethod_def dbusGetPropertyMethod_def
      systemdStartUnitMethod_def systemdStopUnitMethod_def)

lemma checkServiceStatus_log:
  "checkServiceStatus e log n = (r, log') \<Longrightarrow> filter isMutating log' = filter isMutating log"
  using isMutating_simps2(1,2)
  by (auto simp: checkServiceStatus_def getSystemdUnitObject_def getSystemdObject_def
        getUnitStatus_def Call_eq GetUnitCall_def GetStateCall_def
      split: sum.splits if_splits prod.splits)

lemma doStartService_eq:
  "doStartService e log (systemdService, systemObjectPath) n =
     (case bus e log (StartUnitCall n) of
        Inl ce \<Rightarrow> Inl (Errorf ''failed to start unit: %v'' [AErr (LibErr ce)])
      | Inr tok \<Rightarrow> Inr tok, log @ [StartUnitCall n])"
  by (simp add: doStartService_def Call_eq StartUnitCall_def split: sum.splits)

lemma doStopService_eq:
  "doStopService e log (systemdService, systemObjectPath) n =
     (case bus e log (StopUnitCall n) of
        Inl ce \<Rightarrow> Inl (Errorf ''failed to stop unit: %v'' [AErr (LibErr ce)])
      | Inr tok \<Rightarrow> Inr tok, log @ [StopUnitCall n])"
  by (simp add: doStopService_def Call_eq StopUnitCall_def split: sum.splits)

lemma waitLoop_skip_all:
  "\<not> list_ex (jobRemovedFor tok) pre \<Longrightarrow> waitLoop tok (pre @ rest) = waitLoop tok rest"
  by (induction pre) (simp_all add: waitLoop_skip del: waitLoop.simps)

lemma checkServiceStatus_answers:
  "statusAnswers e log n p st \<Longrightarrow>
   checkServiceStatus e log n =
     (Inr ((systemdService, p), st \<noteq> ''inactive'' \<and> st \<noteq> ''failed''),
      log @ [GetUnitCall n, GetStateCall p])"
  by (simp add: statusAnswers_def checkServiceStatus_ok)

lemma checkServiceStatus_obj:
  "checkServiceStatus e log n = (Inr (u, b), log') \<Longrightarrow>
   getSystemdObject e = Inr (systemdService, systemObjectPath)"
  by (auto dest!: checkServiceStatus_Inr simp: getSystemdObject_def)

text \<open>
  Claim C1. \<open>waitJobComplete\<close> never returns a result taken from a notification whose
  job path differs from the token it waits for. Signals that are not a \<^verbatim>\<open>JobRemoved\<close> for
  the token are skipped and the wait goes on with the rest; and whenever the wait returns a
  result code \<open>r\<close>, the signals it received split into skipped ones, none of them for the
  token, and then a \<^verbatim>\<open>JobRemoved\<close> signal whose second body element is the token itself
  and whose fourth is \<open>r\<close>.
\<close>

theorem job_wait_correlation:
  "(\<not> list_ex (jobRemovedFor tok) pre \<longrightarrow> waitLoop tok (pre @ rest) = waitLoop tok rest) \<and>
   (fst (waitJobComplete e log tok) = Inr r \<longrightarrow>
      (\<exists>pre sg post. signals e = pre @ sg # post \<and> \<not> list_ex (jobRemovedFor tok) pre
          \<and> Name sg = ''org.freedesktop.systemd1.Manager.JobRemoved'' \<and> 4 \<le> length (Body sg)
          \<and> Body sg ! 1 = VObjectPath tok \<and> Body sg ! 3 = VString r))"
proof (intro conjI impI)
  assume "\<not> list_ex (jobRemovedFor tok) pre"
  then show "waitLoop tok (pre @ rest) = waitLoop tok rest"
    by (rule waitLoop_skip_all)
next
  assume "fst (waitJobComplete e log tok) = Inr r"
  then have "waitLoop tok (signals e) = Inr r"
    by (simp add: waitJobComplete_eq)
  from waitLoop_Inr[OF this] obtain pre sg post where
    "signals e = pre @ sg # post" "jobRemovedFor tok sg" "Body sg ! 3 = VString r"
    "\<not> list_ex (jobRemovedFor tok) pre" by blast
  then show "\<exists>pre sg post. signals e = pre @ sg # post \<and> \<not> list_ex (jobRemovedFor tok) pre
          \<and> Name sg = ''org.freedesktop.systemd1.Manager.JobRemoved'' \<and> 4 \<le> length (Body sg)
          \<and> Body sg ! 1 = VObjectPath tok \<and> Body sg ! 3 = VString r"
    unfolding jobRemovedFor_def by blast
qed

lemma StartService_after_precheck:
  assumes "SystemBus_err e = None" and "checkServiceStatus e [] n = (Inr (u, False), log1)"
  shows "StartService e n =
     (case bus e log1 (StartUnitCall n) of
        Inl ce \<Rightarrow>
          (Some (Errorf ''error requesting start job for service: %v''
                   [AErr (Errorf ''failed to start unit: %v'' [AErr (LibErr ce)])]),
           log1 @ [StartUnitCall n])
      | Inr tok \<Rightarrow>
          (case waitLoop tok (signals e) of
             Inl err \<Rightarrow>
               (Some (Errorf ''waiting for start job failed with error: %v'' [AErr err]),
                log1 @ [StartUnitCall n, AddMatchCall])
           | Inr r \<Rightarrow>
               if r = ''done'' then (None, log1 @ [StartUnitCall n, AddMatchCall])
               else
                 (case checkServiceStatus e (log1 @ [StartUnitCall n, AddMatchCall]) n of
                    (Inl err, log4) \<Rightarrow>
                      (Some (Errorf
                         ''job to start unit failed and checking state of service gave error: %v''
                         [AErr err]), log4)
                  | (Inr (_, res2), log4) \<Rightarrow>
                      if \<not> res2
                      then (Some (Errorf ''job to start service failed (%s) and unit isn't running''
                                    [AStr r]), log4)
                      else (None, log4))))"
  using assms checkServiceStatus_obj[OF assms(2)]
  by (simp add: StartService_def doStartService_eq waitJobComplete_eq split: sum.splits)

lemma StopService_after_precheck:
  assumes "SystemBus_err e = None" and "checkServiceStatus e [] n = (Inr (u, True), log1)"
  shows "StopService e n =
     (case bus e log1 (StopUnitCall n) of
        Inl ce \<Rightarrow>
          (Some (Errorf ''error requesting stop job for service: %v''
                   [AErr (Errorf ''failed to stop unit: %v'' [AErr (LibErr ce)])]),
           log1 @ [StopUnitCall n])
      | Inr tok \<Rightarrow>
          (case waitLoop tok (signals e) of
             Inl err \<Rightarrow>
               (Some (Errorf ''waiting for stop job failed with error: %v'' [AErr err]),
                log1 @ [StopUnitCall n, AddMatchCall])
           | Inr r \<Rightarrow>
               if r = ''done'' then (None, log1 @ [StopUnitCall n, AddMatchCall])
               else
                 (case checkServiceStatus e (log1 @ [StopUnitCall n, AddMatchCall]) n of
                    (Inl err, log4) \<Rightarrow>
                      (Some (Errorf
                         ''job to stop unit failed and checking state of service gave error: %v''
                         [AErr err]), log4)
                  | (Inr (_, res2), log4) \<Rightarrow>
                      if res2
                      then (Some (Errorf ''job to stop service failed (%s) and unit is still running''
                                    [AStr r]), log4)
                      else (None, log4))))"
  using assms checkServiceStatus_obj[OF assms(2)]
  by (simp add: StopService_def doStopService_eq waitJobComplete_eq split: sum.splits)

text \<open>
  Claim C4. Once the bus is connected, if the status query of the pre-check reports the
  unit running, \<open>StartService\<close> returns no error at once, and if it reports the unit not
  running, \<open>StopService\<close> does; in both cases the calls issued are those of the status
  query, none of them a \<^verbatim>\<open>StartUnit\<close> or \<^verbatim>\<open>StopUnit\<close>.
\<close>

theorem precheck_idempotent:
  assumes "SystemBus_err e = None"
  shows "(checkServiceStatus e [] n = (Inr (u, True), log) \<longrightarrow>
            StartService e n = (None, log) \<and> filter isMutating log = []) \<and>
         (checkServiceStatus e [] n = (Inr (u, False), log) \<longrightarrow>
            StopService e n = (None, log) \<and> filter isMutating log = [])"
proof (intro conjI impI)
  assume st: "checkServiceStatus e [] n = (Inr (u, True), log)"
  from assms st checkServiceStatus_obj[OF st] show "StartService e n = (None, log)"
    by (simp add: StartService_def)
  from checkServiceStatus_log[OF st] show "filter isMutating log = []" by simp
next
  assume st: "checkServiceStatus e [] n = (Inr (u, False), log)"
  from assms st checkServiceStatus_obj[OF st] show "StopService e n = (None, log)"
    by (simp add: StopService_def)
  from checkServiceStatus_log[OF st] show "filter isMutating log = []" by simp
qed

text \<open>
  Claim C5. If none of the signals received before the timer case is taken is a
  \<^verbatim>\<open>JobRemoved\<close> for the token, \<open>waitJobComplete\<close> returns the error
  \<^verbatim>\<open>operation timed out\<close>; \<open>StartService\<close> and \<open>StopService\<close> then return an error wrapping
  it, and the run has issued the start (stop) request exactly once.
\<close>

theorem job_wait_timeout:
  assumes "\<not> list_ex (jobRemovedFor tok) (signals e)"
  shows "waitJobComplete e log tok = (Inl (New ''operation timed out''), log @ [AddMatchCall]) \<and>
    (SystemBus_err e = None \<and> checkServiceStatus e [] n = (Inr (u, False), log1)
       \<and> bus e log1 (StartUnitCall n) = Inr tok \<longrightarrow>
     StartService e n =
       (Some (Errorf ''waiting for start job failed with error: %v''
                [AErr (New ''operation timed out'')]),
        log1 @ [StartUnitCall n, AddMatchCall])
     \<and> filter isMutating (snd (StartService e n)) = [StartUnitCall n]) \<and>
    (SystemBus_err e = None \<and> checkServiceStatus e [] n = (Inr (u, True), log1)
       \<and> bus e log1 (StopUnitCall n) = Inr tok \<longrightarrow>
     StopService e n =
       (Some (Errorf ''waiting for stop job failed with error: %v''
                [AErr (New ''operation timed out'')]),
        log1 @ [StopUnitCall n, AddMatchCall])
     \<and> filter isMutating (snd (StopService e n)) = [StopUnitCall n])"
proof -
  have w: "waitLoop tok (signals e) = Inl (New ''operation timed out'')"
    using assms by (rule waitLoop_timeout)
  have 1: "waitJobComplete e log tok = (Inl (New ''operation timed out''), log @ [AddMatchCall])"
    by (simp add: waitJobComplete_eq w)
  have 2: "StartService e n =
       (Some (Errorf ''waiting for start job failed with error: %v''
                [AErr (New ''operation timed out'')]),
        log1 @ [StartUnitCall n, AddMatchCall])
     \<and> filter isMutating (snd (StartService e n)) = [StartUnitCall n]"
    if a: "SystemBus_err e = None" and b: "checkServiceStatus e [] n = (Inr (u, False), log1)"
      and c: "bus e log1 (StartUnitCall n) = Inr tok"
  proof -
    have eq: "StartService e n =
       (Some (Errorf ''waiting for start job failed with error: %v''
                [AErr (New ''operation timed out'')]),
        log1 @ [StartUnitCall n, AddMatchCall])"
      by (simp add: StartService_after_precheck[OF a b] c w)
    from checkServiceStatus_log[OF b] have "filter isMutating log1 = []" by simp
    with eq show ?thesis by (simp add: isMutating_simps2)
  qed
  have 3: "StopService e n =
       (Some (Errorf ''waiting for stop job failed with error: %v''
                [AErr (New ''operation timed out'')]),
        log1 @ [StopUnitCall n, AddMatchCall])
     \<and> filter isMutating (snd (StopService e n)) = [StopUnitCall n]"
    if a: "SystemBus_err e = None" and b: "checkServiceStatus e [] n = (Inr (u, True), log1)"
      and c: "bus e log1 (StopUnitCall n) = Inr tok"
  proof -
    have eq: "StopService e n =
       (Some (Errorf ''waiting for stop job failed with error: %v''
                [AErr (New ''operation timed out'')]),
        log1 @ [StopUnitCall n, AddMatchCall])"
      by (simp add: StopService_after_precheck[OF a b] c w)
    from checkServiceStatus_log[OF b] have "filter isMutating log1 = []" by simp
    with eq show ?thesis by (simp add: isMutating_simps2)
  qed
  from 1 2 3 show ?thesis by blast
qed


text \<open>
  Claim C10. The status check reports a unit as running exactly when its \<^verbatim>\<open>ActiveState\<close>
  is neither \<^verbatim>\<open>inactive\<close> nor \<^verbatim>\<open>failed\<close>. So for a unit that is \<^verbatim>\<open>activating\<close> or
  \<^verbatim>\<open>deactivating\<close>, \<open>StartService\<close> returns no error after the two calls of the status
  query, without a start request.
\<close>

theorem running_classification:
  assumes "statusAnswers e log n p st"
  shows "checkServiceStatus e log n =
           (Inr ((systemdService, p), st \<noteq> ''inactive'' \<and> st \<noteq> ''failed''),
            log @ [GetUnitCall n, GetStateCall p]) \<and>
         (log = [] \<and> SystemBus_err e = None \<and> (st = ''activating'' \<or> st = ''deactivating'') \<longrightarrow>
            StartService e n = (None, [GetUnitCall n, GetStateCall p]))"
proof (intro conjI impI, goal_cases)
  case 1
  show ?case by (rule checkServiceStatus_answers[OF assms])
next
  case 2
  then have l: "log = []" and b: "SystemBus_err e = None"
    and s: "st = ''activating'' \<or> st = ''deactivating''" by simp_all
  from s have "st \<noteq> ''inactive'' \<and> st \<noteq> ''failed''" by auto
  with checkServiceStatus_answers[OF assms] l
  have c: "checkServiceStatus e [] n = (Inr ((systemdService, p), True), [GetUnitCall n, GetStateCall p])"
    by simp
  from b c checkServiceStatus_obj[OF c] show ?case
    by (simp add: StartService_def)
qed

lemma fakeBus_simps:
  "fakeBus b a log (GetUnitCall n) = Inr ''/unit/demo''"
  "fakeBus b a log (GetStateCall p) = Inr (if list_ex isMutating log then a else b)"
  "fakeBus b a log (StartUnitCall n) = Inr ''/job/7''"
  "fakeBus b a log (StopUnitCall n) = Inr ''/job/7''"
  by (simp_all add: fakeBus_def GetUnitCall_def GetStateCall_def StartUnitCall_def
      StopUnitCall_def systemdGetUnitMethod_def dbusGetPropertyMethod_def
      systemdStartUnitMethod_def systemdStopUnitMethod_def)

lemma fakeEnv_simps:
  "SystemBus_err (fakeEnv b a sgs) = None"
  "Object_nil (fakeEnv b a sgs) d p = False"
  "bus (fakeEnv b a sgs) = fakeBus b a"
  "signals (fakeEnv b a sgs) = sgs"
  by (simp_all add: fakeEnv_def)

lemma fakeEnv_statusAnswers:
  "statusAnswers (fakeEnv b a sgs) log n ''/unit/demo'' (if list_ex isMutating log then a else b)"
  by (simp add: statusAnswers_def fakeEnv_simps fakeBus_simps isMutating_simps2)

lemma jobRemovedFor_JobRemoved: "jobRemovedFor tok (JobRemoved jp res) = (jp = tok)"
  by (simp add: jobRemovedFor_def JobRemoved_def)

lemma waitLoop_JobRemoved:
  "waitLoop tok (JobRemoved jp res # sgs) = (if jp = tok then Inr res else waitLoop tok sgs)"
  by (simp add: JobRemoved_def)

theorem job_wait_correlation_witness:
  "\<not> list_ex (jobRemovedFor ''/job/7'') [JobRemoved ''/job/8'' ''failed''] \<and>
   waitLoop ''/job/7'' ([JobRemoved ''/job/8'' ''failed''] @ [JobRemoved ''/job/7'' ''done''])
     = waitLoop ''/job/7'' [JobRemoved ''/job/7'' ''done''] \<and>
   fst (waitJobComplete
          (fakeEnv ''inactive'' ''active''
             [JobRemoved ''/job/8'' ''failed'', JobRemoved ''/job/7'' ''done''])
          [] ''/job/7'') = Inr ''done'' \<and>
   (\<exists>pre sg post.
      signals (fakeEnv ''inactive'' ''active''
                 [JobRemoved ''/job/8'' ''failed'', JobRemoved ''/job/7'' ''done''])
        = pre @ sg # post
      \<and> \<not> list_ex (jobRemovedFor ''/job/7'') pre
      \<and> Name sg = ''org.freedesktop.systemd1.Manager.JobRemoved'' \<and> 4 \<le> length (Body sg)
      \<and> Body sg ! 1 = VObjectPath ''/job/7'' \<and> Body sg ! 3 = VString ''done'')"
proof -
  have h1: "\<not> list_ex (jobRemovedFor ''/job/7'') [JobRemoved ''/job/8'' ''failed'']"
    by (simp add: jobRemovedFor_JobRemoved)
  have h2: "fst (waitJobComplete
          (fakeEnv ''inactive'' ''active''
             [JobRemoved ''/job/8'' ''failed'', JobRemoved ''/job/7'' ''done''])
          [] ''/job/7'') = Inr ''done''"
    by (simp add: waitJobComplete_eq fakeEnv_simps waitLoop_JobRemoved del: waitLoop.simps)
  from job_wait_correlation[of "''/job/7''" "[JobRemoved ''/job/8'' ''failed'']"
      "[JobRemoved ''/job/7'' ''done'']"
      "fakeEnv ''inactive'' ''active''
             [JobRemoved ''/job/8'' ''failed'', JobRemoved ''/job/7'' ''done'']" "[]" "''done''"]
    h1 h2
  show ?thesis by blast
qed

theorem precheck_idempotent_witness:
  "SystemBus_err (fakeEnv ''active'' ''active'' []) = None \<and>
   checkServiceStatus (fakeEnv ''active'' ''active'' []) [] ''demo''
     = (Inr ((systemdService, ''/unit/demo''), True),
        [GetUnitCall ''demo'', GetStateCall ''/unit/demo'']) \<and>
   StartService (fakeEnv ''active'' ''active'' []) ''demo''
     = (None, [GetUnitCall ''demo'', GetStateCall ''/unit/demo'']) \<and>
   SystemBus_err (fakeEnv ''inactive'' ''inactive'' []) = None \<and>
   checkServiceStatus (fakeEnv ''inactive'' ''inactive'' []) [] ''demo''
     = (Inr ((systemdService, ''/unit/demo''), False),
        [GetUnitCall ''demo'', GetStateCall ''/unit/demo'']) \<and>
   StopService (fakeEnv ''inactive'' ''inactive'' []) ''demo''
     = (None, [GetUnitCall ''demo'', GetStateCall ''/unit/demo'']) \<and>
   filter isMutating [GetUnitCall ''demo'', GetStateCall ''/unit/demo''] = []"
proof -
  have a: "checkServiceStatus (fakeEnv ''active'' ''active'' []) [] ''demo''
     = (Inr ((systemdService, ''/unit/demo''), True),
        [GetUnitCall ''demo'', GetStateCall ''/unit/demo''])"
    using checkServiceStatus_answers[OF fakeEnv_statusAnswers, of "''active''" "''active''" "[]" "[]" "''demo''"]
    by simp
  have b: "checkServiceStatus (fakeEnv ''inactive'' ''inactive'' []) [] ''demo''
     = (Inr ((systemdService, ''/unit/demo''), False),
        [GetUnitCall ''demo'', GetStateCall ''/unit/demo''])"
    using checkServiceStatus_answers[OF fakeEnv_statusAnswers, of "''inactive''" "''inactive''" "[]" "[]" "''demo''"]
    by simp
  from precheck_idempotent[OF fakeEnv_simps(1), of "''active''" "''active''" "[]" "''demo''"
        "(systemdService, ''/unit/demo'')" "[GetUnitCall ''demo'', GetStateCall ''/unit/demo'']"]
       precheck_idempotent[OF fakeEnv_simps(1), of "''inactive''" "''inactive''" "[]" "''demo''"
        "(systemdService, ''/unit/demo'')" "[GetUnitCall ''demo'', GetStateCall ''/unit/demo'']"]
       a b fakeEnv_simps(1)
  show ?thesis by simp
qed

lemma fake_precheck:
  "checkServiceStatus (fakeEnv b a sgs) [] n =
     (Inr ((systemdService, ''/unit/demo''), b \<noteq> ''inactive'' \<and> b \<noteq> ''failed''),
      [GetUnitCall n, GetStateCall ''/unit/demo''])"
  using checkServiceStatus_answers[OF fakeEnv_statusAnswers, of b a sgs "[]" n] by simp

theorem job_wait_timeout_witness:
  "\<not> list_ex (jobRemovedFor ''/job/7'')
       (signals (fakeEnv ''inactive'' ''inactive'' [JobRemoved ''/job/8'' ''done''])) \<and>
   waitJobComplete (fakeEnv ''inactive'' ''inactive'' [JobRemoved ''/job/8'' ''done'']) []
       ''/job/7''
     = (Inl (New ''operation timed out''), [AddMatchCall]) \<and>
   StartService (fakeEnv ''inactive'' ''inactive'' [JobRemoved ''/job/8'' ''done'']) ''demo''
     = (Some (Errorf ''waiting for start job failed with error: %v''
                [AErr (New ''operation timed out'')]),
        [GetUnitCall ''demo'', GetStateCall ''/unit/demo'', StartUnitCall ''demo'',
         AddMatchCall]) \<and>
   filter isMutating
       (snd (StartService (fakeEnv ''inactive'' ''inactive'' [JobRemoved ''/job/8'' ''done''])
               ''demo''))
     = [StartUnitCall ''demo''] \<and>
   \<not> list_ex (jobRemovedFor ''/job/7'') (signals (fakeEnv ''active'' ''active'' [])) \<and>
   StopService (fakeEnv ''active'' ''active'' []) ''demo''
     = (Some (Errorf ''waiting for stop job failed with error: %v''
                [AErr (New ''operation timed out'')]),
        [GetUnitCall ''demo'', GetStateCall ''/unit/demo'', StopUnitCall ''demo'',
         AddMatchCall]) \<and>
   filter isMutating (snd (StopService (fakeEnv ''active'' ''active'' []) ''demo''))
     = [StopUnitCall ''demo'']"
proof -
  have h1: "\<not> list_ex (jobRemovedFor ''/job/7'')
       (signals (fakeEnv ''inactive'' ''inactive'' [JobRemoved ''/job/8'' ''done'']))"
    by (simp add: fakeEnv_simps jobRemovedFor_JobRemoved)
  have h2: "\<not> list_ex (jobRemovedFor ''/job/7'') (signals (fakeEnv ''active'' ''active'' []))"
    by (simp add: fakeEnv_simps)
  from job_wait_timeout[OF h1, of "[]" "''demo''" "(systemdService, ''/unit/demo'')"
         "[GetUnitCall ''demo'', GetStateCall ''/unit/demo'']"]
       job_wait_timeout[OF h2, of "[]" "''demo''" "(systemdService, ''/unit/demo'')"
         "[GetUnitCall ''demo'', GetStateCall ''/unit/demo'']"]
       h1 h2
  show ?thesis
    by (simp add: fakeEnv_simps fakeBus_simps fake_precheck isMutating_simps2)
qed



theorem running_classification_witness:
  "statusAnswers (fakeEnv ''activating'' ''active'' []) [] ''demo'' ''/unit/demo''
     ''activating'' \<and>
   checkServiceStatus (fakeEnv ''activating'' ''active'' []) [] ''demo''
     = (Inr ((systemdService, ''/unit/demo''), True),
        [GetUnitCall ''demo'', GetStateCall ''/unit/demo'']) \<and>
   StartService (fakeEnv ''activating'' ''active'' []) ''demo''
     = (None, [GetUnitCall ''demo'', GetStateCall ''/unit/demo'']) \<and>
   statusAnswers (fakeEnv ''deactivating'' ''inactive'' []) [] ''demo'' ''/unit/demo''
     ''deactivating'' \<and>
   StartService (fakeEnv ''deactivating'' ''inactive'' []) ''demo''
     = (None, [GetUnitCall ''demo'', GetStateCall ''/unit/demo''])"
proof -
  have sa0: "statusAnswers (fakeEnv b a sgs) [] ''demo'' ''/unit/demo'' b" for b a sgs
    using fakeEnv_statusAnswers[of b a sgs "[]" "''demo''"] by simp
  from running_classification[OF sa0, of "''activating''" "''active''" "[]"]
       running_classification[OF sa0, of "''deactivating''" "''inactive''" "[]"]
       sa0
  show ?thesis
    by (simp add: fakeEnv_simps)
qed

section \<open>Properties of the subscriptions\<close>

lemma isUint32_iff: "isUint32 v = (\<exists>w. v = VUint32 w)"
  by (cases v) simp_all

lemma rejected_iff: "rejected devPath sg = (\<not> wellFormed devPath sg)"
  by (auto simp: rejected_def wellFormed_def)

lemma parse_wellFormed:
  "parseDeviceStateChange devPath sg =
     (if wellFormed devPath sg then Some (record_of sg) else None)"
  by (auto simp: parseDeviceStateChange_def wellFormed_def record_of_def isUint32_iff
      split: dval.splits)

lemma map_filter_parse:
  "List.map_filter (parseDeviceStateChange devPath) sgs =
     map record_of (filter (wellFormed devPath) sgs)"
  by (induction sgs) (simp_all add: List.map_filter_simps parse_wellFormed)






lemma fire_visible:
  "visible s = visible s' \<Longrightarrow>
   map_option visible (fire devPath a s) = map_option visible (fire devPath a s')"
  by (cases a) (auto simp: visible_def split: list.splits pumpLoc.splits option.splits)

lemma exec_visible:
  "visible s = visible s' \<Longrightarrow>
   map_option visible (exec devPath acts s) = map_option visible (exec devPath acts s')"
proof (induction acts arbitrary: s s')
  case Nil
  then show ?case by simp
next
  case (Cons a acts)
  from fire_visible[OF Cons.prems, of devPath a]
  consider "fire devPath a s = None" "fire devPath a s' = None"
    | t t' where "fire devPath a s = Some t" "fire devPath a s' = Some t'" "visible t = visible t'"
    by (cases "fire devPath a s"; cases "fire devPath a s'") auto
  then show ?case
  proof cases
    case 1
    then show ?thesis by simp
  next
    case 2
    with Cons.IH[OF 2(3)] show ?thesis by simp
  qed
qed

lemma subscribe_init:
  "DeviceStateChangeSubscribe e devPath = Inr s0 \<Longrightarrow>
   s0 = \<lparr>ctxDone = False, sigCh = [], outCh = [], loc = AtSelect,
         connClosed = False, wgDone = False, received = [], consumed = []\<rparr>"
  by (auto simp: DeviceStateChangeSubscribe_def deviceStateChangeSubscribe_def
      split: option.splits sum.splits prod.splits)

text \<open>
  Claim C2. Let the pump stand at its \<^verbatim>\<open>select\<close> and take a signal whose path or name does
  not match, or whose body is shorter than three elements, or one of whose first three
  elements is not an unsigned 32-bit integer. Then nothing is decoded from it; the pump
  stands at its \<^verbatim>\<open>select\<close> again with the output channel, the connection and the
  completion signal as they were (it has not stopped, and the subscription has no way to
  report an error); and under every later schedule all that the code can observe evolves
  as from the state in which the signal had never been in the queue, so that no record
  derived from it ever reaches the output channel.
\<close>

theorem rejected_signal_discarded:
  assumes "rejected devPath sg" and "loc s = AtSelect" and "sigCh s = sg # q"
  shows "parseDeviceStateChange devPath sg = None \<and>
         fire devPath SelectSig s = Some (s\<lparr>sigCh := q, received := received s @ [sg]\<rparr>) \<and>
         map_option visible (exec devPath (SelectSig # acts) s)
           = map_option visible (exec devPath acts (s\<lparr>sigCh := q\<rparr>))"
proof -
  from assms(1) have p: "parseDeviceStateChange devPath sg = None"
    by (simp add: parse_wellFormed rejected_iff)
  from assms(2,3) p
  have f: "fire devPath SelectSig s = Some (s\<lparr>sigCh := q, received := received s @ [sg]\<rparr>)"
    by simp
  have "visible (s\<lparr>sigCh := q, received := received s @ [sg]\<rparr>) = visible (s\<lparr>sigCh := q\<rparr>)"
    by (simp add: visible_def)
  from exec_visible[OF this, of devPath acts] f
  have "map_option visible (exec devPath (SelectSig # acts) s)
           = map_option visible (exec devPath acts (s\<lparr>sigCh := q\<rparr>))"
    by simp
  with p f show ?thesis by blast
qed


text \<open>
  Claim C7, as amended. After \<^verbatim>\<open>Stop\<close>, whenever the pump stands at its \<^verbatim>\<open>select\<close> the
  cancellation case is ready. Taking it, the pump returns: the signal queue and the output
  channel are left as they are (nothing is drained or forwarded), the connection is closed,
  completion is signalled, so \<^verbatim>\<open>Join\<close> returns, and the pump takes no further step. When
  no signal is queued, this is the only step the pump can take; in particular a fresh
  subscription that is stopped before any signal arrived returns at once. While signals
  are queued, the \<^verbatim>\<open>select\<close> may take one of them instead (Go picks among the ready cases
  at random), as the run after this theorem and its instance shows.
\<close>

theorem stop_at_select:
  assumes "loc s = AtSelect" and "ctxDone s"
  shows "fire devPath SelectDone s
           = Some (s\<lparr>loc := Returned, connClosed := True, wgDone := True\<rparr>) \<and>
         Join_returns (s\<lparr>loc := Returned, connClosed := True, wgDone := True\<rparr>) \<and>
         fire devPath SelectSig (s\<lparr>loc := Returned, connClosed := True, wgDone := True\<rparr>) = None \<and>
         fire devPath Send (s\<lparr>loc := Returned, connClosed := True, wgDone := True\<rparr>) = None \<and>
         (sigCh s = [] \<longrightarrow> fire devPath SelectSig s = None \<and> fire devPath Send s = None) \<and>
         (DeviceStateChangeSubscribe e devPath = Inr s0 \<longrightarrow>
            exec devPath [Stop, SelectDone] s0
              = Some (s0\<lparr>ctxDone := True, loc := Returned, connClosed := True, wgDone := True\<rparr>))"
  using assms
  by (auto simp: Join_returns_def dest!: subscribe_init)

lemma StateChanged_wellFormed: "wellFormed devPath (StateChanged devPath a b c)"
  by (simp add: wellFormed_def StateChanged_def DeviceStateChangedSignal_def
      NetworkManagerDeviceInterface_def)

lemma StateChanged_record: "record_of (StateChanged devPath a b c) = (a, b, c)"
  by (simp add: record_of_def StateChanged_def)

lemma StateChanged_parse:
  "parseDeviceStateChange devPath (StateChanged devPath a b c) = Some (a, b, c)"
  by (simp add: parse_wellFormed StateChanged_wellFormed StateChanged_record)

lemma NameAcquired_rejected: "rejected devPath NameAcquired"
  by (simp add: rejected_def NameAcquired_def DeviceStateChangedSignal_def
      NetworkManagerDeviceInterface_def)

lemma fake_subscribe:
  "DeviceStateChangeSubscribe (fakeEnv b a sgs) devPath =
     Inr \<lparr>ctxDone = False, sigCh = [], outCh = [], loc = AtSelect,
          connClosed = False, wgDone = False, received = [], consumed = []\<rparr>"
  by (simp add: DeviceStateChangeSubscribe_def deviceStateChangeSubscribe_def fakeEnv_simps
      Call_eq)

theorem rejected_signal_discarded_witness:
  "rejected ''/dev/1'' NameAcquired \<and>
   loc \<lparr>ctxDone = False, sigCh = [NameAcquired, StateChanged ''/dev/1'' 100 90 0], outCh = [],
        loc = AtSelect, connClosed = False, wgDone = False, received = [], consumed = []\<rparr>
     = AtSelect \<and>
   parseDeviceStateChange ''/dev/1'' NameAcquired = None \<and>
   fire ''/dev/1'' SelectSig
     \<lparr>ctxDone = False, sigCh = [NameAcquired, StateChanged ''/dev/1'' 100 90 0], outCh = [],
      loc = AtSelect, connClosed = False, wgDone = False, received = [], consumed = []\<rparr>
     = Some \<lparr>ctxDone = False, sigCh = [StateChanged ''/dev/1'' 100 90 0], outCh = [],
             loc = AtSelect, connClosed = False, wgDone = False, received = [NameAcquired],
             consumed = []\<rparr> \<and>
   map_option visible
     (exec ''/dev/1'' (SelectSig # [SelectSig, Send])
        \<lparr>ctxDone = False, sigCh = [NameAcquired, StateChanged ''/dev/1'' 100 90 0], outCh = [],
         loc = AtSelect, connClosed = False, wgDone = False, received = [], consumed = []\<rparr>)
     = Some (False, [], [(100, 90, 0)], AtSelect, False, False)"
proof -
  let ?s = "\<lparr>ctxDone = False, sigCh = [NameAcquired, StateChanged ''/dev/1'' 100 90 0],
             outCh = [], loc = AtSelect, connClosed = False, wgDone = False, received = [],
             consumed = []\<rparr>"
  have r: "rejected ''/dev/1'' NameAcquired" by (rule NameAcquired_rejected)
  have l: "loc ?s = AtSelect" by simp
  have q: "sigCh ?s = NameAcquired # [StateChanged ''/dev/1'' 100 90 0]" by simp
  from rejected_signal_discarded[OF r l q, of "[SelectSig, Send]"] r
  show ?thesis
    by (simp add: StateChanged_parse visible_def)
qed


theorem stop_at_select_witness:
  "loc \<lparr>ctxDone = True, sigCh = [], outCh = [], loc = AtSelect,
        connClosed = False, wgDone = False, received = [], consumed = []\<rparr> = AtSelect \<and>
   ctxDone \<lparr>ctxDone = True, sigCh = [], outCh = [], loc = AtSelect,
        connClosed = False, wgDone = False, received = [], consumed = []\<rparr> \<and>
   fire ''/dev/1'' SelectDone
     \<lparr>ctxDone = True, sigCh = [], outCh = [], loc = AtSelect,
      connClosed = False, wgDone = False, received = [], consumed = []\<rparr>
     = Some \<lparr>ctxDone = True, sigCh = [], outCh = [], loc = Returned,
             connClosed = True, wgDone = True, received = [], consumed = []\<rparr> \<and>
   Join_returns \<lparr>ctxDone = True, sigCh = [], outCh = [], loc = Returned,
             connClosed = True, wgDone = True, received = [], consumed = []\<rparr> \<and>
   fire ''/dev/1'' SelectSig
     \<lparr>ctxDone = True, sigCh = [], outCh = [], loc = AtSelect,
      connClosed = False, wgDone = False, received = [], consumed = []\<rparr> = None \<and>
   fire ''/dev/1'' Send
     \<lparr>ctxDone = True, sigCh = [], outCh = [], loc = AtSelect,
      connClosed = False, wgDone = False, received = [], consumed = []\<rparr> = None \<and>
   DeviceStateChangeSubscribe (fakeEnv [] [] []) ''/dev/1''
     = Inr \<lparr>ctxDone = False, sigCh = [], outCh = [], loc = AtSelect,
            connClosed = False, wgDone = False, received = [], consumed = []\<rparr> \<and>
   exec ''/dev/1'' [Stop, SelectDone]
     \<lparr>ctxDone = False, sigCh = [], outCh = [], loc = AtSelect,
      connClosed = False, wgDone = False, received = [], consumed = []\<rparr>
     = Some \<lparr>ctxDone = True, sigCh = [], outCh = [], loc = Returned,
             connClosed = True, wgDone = True, received = [], consumed = []\<rparr>"
proof -
  let ?s = "\<lparr>ctxDone = True, sigCh = [], outCh = [], loc = AtSelect,
        connClosed = False, wgDone = False, received = [], consumed = []\<rparr>"
  let ?init = "\<lparr>ctxDone = False, sigCh = [], outCh = [], loc = AtSelect,
      connClosed = False, wgDone = False, received = [], consumed = []\<rparr>"
  have l: "loc ?s = AtSelect" by simp
  have d: "ctxDone ?s" by simp
  have a: "DeviceStateChangeSubscribe (fakeEnv [] [] []) ''/dev/1'' = Inr ?init"
    by (rule fake_subscribe)
  from stop_at_select[OF l d, of "''/dev/1''" "fakeEnv [] [] []" ?init] a
  show ?thesis by (simp add: Join_returns_def)
qed

text \<open>
  Claim C7 as stated fails. While the pump holds the record of a first signal at its send,
  a second well-formed signal is queued and \<^verbatim>\<open>Stop\<close> is called; the send goes through and
  the pump reaches its \<^verbatim>\<open>select\<close> with the context cancelled and the second signal queued.
  Both cases are ready, the \<^verbatim>\<open>select\<close> takes the signal, and its record is forwarded to
  the output channel after \<^verbatim>\<open>Stop\<close>: the pump stands at its \<^verbatim>\<open>select\<close> again, the
  connection is open and \<^verbatim>\<open>Join\<close> does not return yet.
\<close>

theorem stop_may_forward_queued_counterexample:
  "exec ''/dev/1''
     [Deliver (StateChanged ''/dev/1'' 40 30 0), SelectSig,
      Deliver (StateChanged ''/dev/1'' 100 40 0), Stop, Send]
     \<lparr>ctxDone = False, sigCh = [], outCh = [], loc = AtSelect,
      connClosed = False, wgDone = False, received = [], consumed = []\<rparr>
     = Some \<lparr>ctxDone = True, sigCh = [StateChanged ''/dev/1'' 100 40 0],
             outCh = [(40, 30, 0)], loc = AtSelect, connClosed = False, wgDone = False,
             received = [StateChanged ''/dev/1'' 40 30 0], consumed = []\<rparr> \<and>
   exec ''/dev/1'' [SelectSig, Send]
     \<lparr>ctxDone = True, sigCh = [StateChanged ''/dev/1'' 100 40 0],
      outCh = [(40, 30, 0)], loc = AtSelect, connClosed = False, wgDone = False,
      received = [StateChanged ''/dev/1'' 40 30 0], consumed = []\<rparr>
     = Some \<lparr>ctxDone = True, sigCh = [], outCh = [(40, 30, 0), (100, 40, 0)],
             loc = AtSelect, connClosed = False, wgDone = False,
             received = [StateChanged ''/dev/1'' 40 30 0, StateChanged ''/dev/1'' 100 40 0],
             consumed = []\<rparr> \<and>
   \<not> Join_returns
       \<lparr>ctxDone = True, sigCh = [], outCh = [(40, 30, 0), (100, 40, 0)],
        loc = AtSelect, connClosed = False, wgDone = False,
        received = [StateChanged ''/dev/1'' 40 30 0, StateChanged ''/dev/1'' 100 40 0],
        consumed = []\<rparr>"
  by (simp add: StateChanged_parse Join_returns_def)

text \<open>
  The send is not a case of the \<^verbatim>\<open>select\<close>: while the output channel holds 20 records and
  the subscriber takes none, a pump that stands at its send can take no step, cancelled or
  not, and \<^verbatim>\<open>Join\<close> does not return.
\<close>

lemma stop_while_send_blocked:
  assumes "loc s = AtSend v" and "length (outCh s) = 20"
  shows "fire devPath SelectDone s = None \<and> fire devPath SelectSig s = None
         \<and> fire devPath Send s = None
         \<and> fire devPath Stop s = Some (s\<lparr>ctxDone := True\<rparr>)
         \<and> fire devPath SelectDone (s\<lparr>ctxDone := True\<rparr>) = None
         \<and> fire devPath Send (s\<lparr>ctxDone := True\<rparr>) = None"
  using assms by simp

lemma subscribe_connect_failure:
  assumes "SystemBus_err e = Some err"
  shows "DeviceStateChangeSubscribe e devPath
           = Inl (Errorf ''failed to connect to System Bus: %w'' [AErr (LibErr err)])"
    and "GetNetworkManagerStateSubscription e
           = (\<lparr>sub_C = None, sub_Conn = None\<rparr>,
              Some (Errorf ''failed to connect to SystemBus: %v'' [AErr (LibErr err)]))"
  using assms
  by (simp_all add: DeviceStateChangeSubscribe_def deviceStateChangeSubscribe_def
      GetNetworkManagerStateSubscription_def MakeDBusSignalSubscription_def)

lemma MakeDBusSignalSubscription_rejected:
  assumes "SystemBus_err e = None"
    and "bus e [] (MethodCall ''org.freedesktop.DBus'' ''/org/freedesktop/DBus''
                     MethodDbusAddMatchRule [matchRule]) = Inl callErr"
  shows "MakeDBusSignalSubscription e ss matchRule sz = (ss, Some (LibErr callErr))"
  using assms by (simp add: MakeDBusSignalSubscription_def Call_eq busObject_def)

lemma DeviceStateChangeSubscribe_connected:
  assumes "SystemBus_err e = None"
  shows "DeviceStateChangeSubscribe e devPath =
     Inr \<lparr>ctxDone = False, sigCh = [], outCh = [], loc = AtSelect,
          connClosed = False, wgDone = False, received = [], consumed = []\<rparr>"
  using assms
  by (simp add: DeviceStateChangeSubscribe_def deviceStateChangeSubscribe_def Call_eq)

text \<open>
  Claim C8 fails for \<open>DeviceStateChangeSubscribe\<close>: on a bus that accepts the connection
  and rejects every \<^verbatim>\<open>AddMatch\<close> call, it returns a running subscription and no error (the
  source drops the result of \<^verbatim>\<open>conn.AddMatchSignal\<close>), while
  \<open>GetNetworkManagerStateSubscription\<close> on the same bus returns the error of the call.
\<close>

theorem subscribe_with_rejected_match_rule:
  "bus rejectingEnv []
     (MethodCall ''org.freedesktop.DBus'' ''/org/freedesktop/DBus''
        ''org.freedesktop.DBus.AddMatch'' [WithMatchObjectPath_rule ''/dev/1''])
     = Inl ''org.freedesktop.DBus.Error.LimitsExceeded'' \<and>
   DeviceStateChangeSubscribe rejectingEnv ''/dev/1''
     = Inr \<lparr>ctxDone = False, sigCh = [], outCh = [], loc = AtSelect,
            connClosed = False, wgDone = False, received = [], consumed = []\<rparr> \<and>
   GetNetworkManagerStateSubscription rejectingEnv
     = (\<lparr>sub_C = None, sub_Conn = None\<rparr>,
        Some (LibErr ''org.freedesktop.DBus.Error.LimitsExceeded''))"
proof -
  have c: "SystemBus_err rejectingEnv = None" by (simp add: rejectingEnv_def)
  have b: "bus rejectingEnv [] x = Inl ''org.freedesktop.DBus.Error.LimitsExceeded''" for x
    by (simp add: rejectingEnv_def)
  show ?thesis
    by (simp add: b DeviceStateChangeSubscribe_connected[OF c]
        GetNetworkManagerStateSubscription_def MakeDBusSignalSubscription_rejected[OF c b])
qed

lemma fake_manager_subscription:
  "GetNetworkManagerStateSubscription (fakeEnv b a sgs) =
     (\<lparr>sub_C = Some \<lparr>cap = 20, buf = []\<rparr>,
       sub_Conn = Some [MethodCall ''org.freedesktop.DBus'' ''/org/freedesktop/DBus''
                          MethodDbusAddMatchRule [NetworkManagerStateMatchRule]]\<rparr>, None)"
  by (simp add: GetNetworkManagerStateSubscription_def MakeDBusSignalSubscription_def Call_eq
      busObject_def fakeEnv_simps fakeBus_def MethodDbusAddMatchRule_def
      systemdGetUnitMethod_def dbusGetPropertyMethod_def systemdStartUnitMethod_def
      systemdStopUnitMethod_def)

text \<open>
  Claim C9 fails on the code. On a bus that accepts the connection and the match rule,
  \<open>GetNetworkManagerStateSubscription\<close> returns the two fields of
  \<open>DBusSignalSubscription\<close>: an empty channel of raw signals with capacity 20, and the
  connection. No goroutine stands behind the channel and the value has nothing to cancel or
  to join. When NetworkManager then reports the state 70, what reaches the channel is the
  whole \<^verbatim>\<open>StateChanged\<close> signal, whose body holds the code; the code itself is never taken
  out of it.
\<close>

theorem manager_state_subscription_is_raw:
  "GetNetworkManagerStateSubscription (fakeEnv [] [] []) =
     (\<lparr>sub_C = Some \<lparr>cap = 20, buf = []\<rparr>,
       sub_Conn = Some [MethodCall ''org.freedesktop.DBus'' ''/org/freedesktop/DBus''
                          MethodDbusAddMatchRule [NetworkManagerStateMatchRule]]\<rparr>, None) \<and>
   Signal_deliver (ManagerStateChanged 70)
     \<lparr>sub_C = Some \<lparr>cap = 20, buf = []\<rparr>,
      sub_Conn = Some [MethodCall ''org.freedesktop.DBus'' ''/org/freedesktop/DBus''
                         MethodDbusAddMatchRule [NetworkManagerStateMatchRule]]\<rparr>
     = Some \<lparr>sub_C = Some \<lparr>cap = 20, buf = [ManagerStateChanged 70]\<rparr>,
             sub_Conn = Some [MethodCall ''org.freedesktop.DBus'' ''/org/freedesktop/DBus''
                                MethodDbusAddMatchRule [NetworkManagerStateMatchRule]]\<rparr> \<and>
   Body (ManagerStateChanged 70) = [VUint32 70] \<and>
   NM_STATE_MAP 70 = Some ''Connected - Global''"
  by (simp add: fake_manager_subscription Signal_deliver_def ManagerStateChanged_def
      NM_STATE_MAP_def NM_STATE_UNKNOWN_def NM_STATE_ASLEEP_def NM_STATE_DISCONNECTED_def
      NM_STATE_DISCONNECTING_def NM_STATE_CONNECTING_def NM_STATE_CONNECTED_LOCAL_def
      NM_STATE_CONNECTED_SITE_def NM_STATE_CONNECTED_GLOBAL_def)

end
